theory Spec2Isabelle
  imports Complex_Main "HOL-Library.Sublist"
begin

section \<open>JavaScript array primitives\<close>

text \<open>
  \<open>Array.prototype.slice\<close> and \<open>Array.prototype.splice\<close> turn a relative index into
  an absolute one in the same way: a negative index counts from the end and is clamped at
  \<open>0\<close>, a non-negative one is clamped at the length.
\<close>

definition js_index :: "nat \<Rightarrow> int \<Rightarrow> nat" where
  "js_index len i = (if i < 0 then nat (max (int len + i) 0) else min (nat i) len)"

text \<open>\<open>items.slice(start, end)\<close>; \<open>None\<close> is an omitted \<open>end\<close>.\<close>

definition js_slice :: "'a list \<Rightarrow> int \<Rightarrow> int option \<Rightarrow> 'a list" where
  "js_slice xs start end =
     (let k = js_index (length xs) start;
          final = (case end of None \<Rightarrow> length xs | Some e \<Rightarrow> js_index (length xs) e)
      in take (final - k) (drop k xs))"

section \<open>Data Window: \<open>__computeData\<close> of \<open>lite-list\<close> and \<open>recycled-list\<close>\<close>

text \<open>
  The function body is the same in every revision of the two elements.  \<open>items\<close> and
  \<open>start\<close> may be \<open>undefined\<close> (\<open>None\<close>), in which case nothing is returned.  An empty
  array is truthy in JavaScript, so only \<open>undefined\<close> takes the early return.
\<close>

definition computeData :: "bool \<Rightarrow> 'a list option \<Rightarrow> int \<Rightarrow> int option \<Rightarrow> 'a list option" where
  "computeData infinite_mode items count start =
     (case items of
        None \<Rightarrow> None
      | Some xs \<Rightarrow>
          (case start of
             None \<Rightarrow> None
           | Some s \<Rightarrow>
               (let end = s + count;
                    len = int (length xs)
                in if infinite_mode \<and> end > len
                   then (let delta = end - len;
                             beginning = js_slice xs s None;
                             ending = js_slice xs 0 (Some delta)
                         in Some (beginning @ ending))
                   else Some (js_slice xs s (Some end)))))"

section \<open>Virtual Index Calculator: \<open>__computeVirtualIndex\<close>\<close>

text \<open>
  A \<open>DOMRect\<close> as read by the calculator.  Pixel quantities are JavaScript numbers; they
  are modelled as real numbers, so the rounding of IEEE doubles is not part of the model.
\<close>

record bbox =
  bbox_height :: real
  bbox_left :: real
  bbox_top :: real
  bbox_width :: real

text \<open>
  \<open>layout\<close> is a string property; \<open>!layout\<close> holds for \<open>undefined\<close> and for the empty
  string.
\<close>

definition falsy_string :: "string option \<Rightarrow> bool" where
  "falsy_string s = (case s of None \<Rightarrow> True | Some v \<Rightarrow> v = [])"

text \<open>
  \<open>lite-list.js\<close>.  \<open>per\<close> is \<open>_containersPer\<close>, which \<open>__computeContainersPer\<close> always
  computes as a whole number; \<open>scroll\<close> is \<open>None\<close> when \<open>typeof scroll !== 'number'\<close>.
\<close>

definition computeVirtualIndex :: "string option \<Rightarrow> bbox option \<Rightarrow> int \<Rightarrow> real option \<Rightarrow> int" where
  "computeVirtualIndex layout sampleBbox per scroll =
     (case sampleBbox of
        None \<Rightarrow> 0
      | Some b \<Rightarrow>
          (case scroll of
             None \<Rightarrow> 0
           | Some sc \<Rightarrow>
               if falsy_string layout then 0
               else if bbox_height b = 0 \<or> bbox_width b = 0 then 0
               else (let beginning = (if layout = Some ''vertical'' then bbox_top b else bbox_left b);
                         size = (if layout = Some ''vertical'' then bbox_height b else bbox_width b);
                         section = \<lfloor>\<bar>(sc - beginning) / size\<bar>\<rfloor>
                     in section * per)))"

text \<open>
  The later revision of \<open>lite-list\<close> adds \<open>!per\<close> to the first guard and is otherwise the
  same.
\<close>

definition computeVirtualIndex_guarded :: "string option \<Rightarrow> bbox option \<Rightarrow> int \<Rightarrow> real option \<Rightarrow> int" where
  "computeVirtualIndex_guarded layout sampleBbox per scroll =
     (if per = 0 then 0 else computeVirtualIndex layout sampleBbox per scroll)"

text \<open>
  \<open>recycled-list.js\<close> has one item per line and no \<open>per\<close> argument: it returns the section
  number itself.
\<close>

definition computeVirtualIndex_recycled :: "string option \<Rightarrow> bbox option \<Rightarrow> real option \<Rightarrow> int" where
  "computeVirtualIndex_recycled layout sampleBbox scroll =
     (case sampleBbox of
        None \<Rightarrow> 0
      | Some b \<Rightarrow>
          (case scroll of
             None \<Rightarrow> 0
           | Some sc \<Rightarrow>
               if falsy_string layout then 0
               else if bbox_height b = 0 \<or> bbox_width b = 0 then 0
               else (let beginning = (if layout = Some ''vertical'' then bbox_top b else bbox_left b);
                         dimension = (if layout = Some ''vertical'' then bbox_height b else bbox_width b)
                     in \<lfloor>\<bar>(sc - beginning) / dimension\<bar>\<rfloor>)))"

text \<open>The leading edge and the extent of the sample item along the scroll axis.\<close>

definition itemStart :: "string option \<Rightarrow> bbox \<Rightarrow> real" where
  "itemStart layout b = (if layout = Some ''vertical'' then bbox_top b else bbox_left b)"

definition itemSize :: "string option \<Rightarrow> bbox \<Rightarrow> real" where
  "itemSize layout b = (if layout = Some ''vertical'' then bbox_height b else bbox_width b)"


section \<open>Pagination and garbage-collection controller: \<open>DbListMixin\<close>\<close>

text \<open>
  The sources hold two revisions of the mixin.  The later one has \<open>reverseConstraints\<close> and
  \<open>_batchSize\<close>; its methods keep their names below.  \<open>db-list-mixin.js\<close> is the earlier
  one; where its methods differ they carry the suffix \<open>_v1\<close>.  \<open>__resultsCountChanged\<close>
  and \<open>errorCallback\<close> are the same in both, and so is the first return of the pagination
  handler.
\<close>

subsection \<open>More array primitives\<close>

text \<open>\<open>array.splice(start, deleteCount, ...items)\<close>, the native method.\<close>

definition js_splice :: "'a list \<Rightarrow> int \<Rightarrow> int \<Rightarrow> 'a list \<Rightarrow> 'a list" where
  "js_splice xs start deleteCount elems =
     (let len = length xs;
          k = js_index len start;
          d = nat (min (max deleteCount 0) (int len - int k))
      in take k xs @ elems @ drop (k + d) xs)"

text \<open>
  \<open>this.splice(path, start, deleteCount, ...items)\<close> of the element base class: a negative
  \<open>start\<close> is replaced by \<open>array.length - Math.floor(-start)\<close> before the native method is
  called; a non-negative whole \<open>start\<close> is passed on as it is.
\<close>

definition this_splice :: "'a list \<Rightarrow> int \<Rightarrow> int \<Rightarrow> 'a list \<Rightarrow> 'a list" where
  "this_splice xs start deleteCount elems =
     js_splice xs (if start < 0 then int (length xs) + start else start) deleteCount elems"

text \<open>\<open>array.at(index)\<close>: \<open>None\<close> is \<open>undefined\<close>.\<close>

definition js_at :: "'a list \<Rightarrow> int \<Rightarrow> 'a option" where
  "js_at xs i =
     (let k = (if 0 \<le> i then i else int (length xs) + i)
      in if k < 0 \<or> int (length xs) \<le> k then None else Some (xs ! nat k))"

text \<open>
  The remainder operator \<open>%\<close> on whole numbers: the sign follows the dividend.  The
  divisor \<open>0\<close> gives \<open>NaN\<close>, written \<open>None\<close>.
\<close>

definition js_rem :: "int \<Rightarrow> int \<Rightarrow> int option" where
  "js_rem a b = (if b = 0 then None else Some (sgn a * (\<bar>a\<bar> mod \<bar>b\<bar>)))"

text \<open>\<open>haystack.includes(needle)\<close> on strings.\<close>

fun includes_str :: "string \<Rightarrow> string \<Rightarrow> bool" where
  "includes_str [] needle = (needle = [])"
| "includes_str (c # cs) needle = (prefix needle (c # cs) \<or> includes_str cs needle)"

text \<open>
  Modelled from the spec: \<open>clamp\<close> is imported from \<open>@longlost/app-core/lambda.js\<close>, which is
  not among the sources.  Its call site reads \<open>clamp(0, batchSize, totalGarbage)\<close> under the
  comment "Only GC between 0 and batchSize items at a time": the third argument is limited
  to the range given by the first two.
\<close>

definition clamp :: "int \<Rightarrow> int \<Rightarrow> int \<Rightarrow> int" where
  "clamp lo hi x = min hi (max lo x)"

subsection \<open>Data\<close>

datatype direction = Forward | Reverse

text \<open>The detail of a \<open>lite-list-pagination-changed\<close> event.\<close>

record pagination =
  p_count :: int
  p_direction :: direction
  p_index :: int
  p_itemBbox :: bbox
  p_parentBbox :: bbox
  p_per :: int

text \<open>
  An entry of \<open>_listItems\<close>: \<open>{data, doc}\<close>.  Of \<open>data\<close> the controller reads only \<open>uid\<close>;
  \<open>doc\<close> is the database document used as the anchor of a later query.  Entries that have
  been garbage-collected are \<open>undefined\<close>, so the array holds optional entries.
\<close>

record 'd entry =
  e_uid :: "string option"
  e_doc :: "'d option"

text \<open>
  A query constraint: one supplied by the user, or \<open>startAt(doc)\<close>, \<open>endAt(doc)\<close> or
  \<open>limit(n)\<close>.
\<close>

datatype ('c, 'd) constraint = Given 'c | StartAt "'d option" | EndAt "'d option" | Limit int

text \<open>
  A live subscription: the query it was opened with and the two values its result callback
  has captured.
\<close>

record ('c, 'd) subscription =
  s_query :: "('c, 'd) constraint list"
  s_index :: "int option"
  s_direction :: "direction option"

record js_error_object =
  message :: "string option"

datatype js_error = TypeError

text \<open>
  The properties of the mixin that its methods read and write.  \<open>max_containers\<close> is
  \<open>_max\<close>, \<open>list_layout\<close> is \<open>layout\<close>, \<open>console\<close> collects what is passed to
  \<open>console.error\<close>.  The computed properties (\<open>_batchSize\<close>, \<open>_resolution\<close>,
  \<open>_visibleCount\<close>, \<open>_lag\<close>, \<open>_index\<close>) are functions of these fields.
\<close>

record ('c, 'd) ctrl =
  busy :: bool
  endDetected :: bool
  listItems :: "'d entry option list option"
  list_layout :: "string option"
  max_containers :: "int option"
  pagination :: "pagination option"
  paginationWaiting :: "pagination option"
  resultsCount :: "nat option"
  unsubscribe :: "('c, 'd) subscription option"
  console :: "js_error_object list"

subsection \<open>Computed properties\<close>

definition min_batch :: int where
  "min_batch = 20"

definition computeBatchSize :: "int \<Rightarrow> int option \<Rightarrow> int" where
  "computeBatchSize mn mx = max mn (case mx of None \<Rightarrow> 1 | Some m \<Rightarrow> m)"

definition computeResolution :: "int option \<Rightarrow> int" where
  "computeResolution batchSize =
     \<lceil>real_of_int (case batchSize of None \<Rightarrow> 1 | Some b \<Rightarrow> b) / 2\<rceil>"

definition computeVisibleCount :: "string option \<Rightarrow> pagination option \<Rightarrow> int" where
  "computeVisibleCount layout pg =
     (case pg of
        None \<Rightarrow> 1
      | Some p \<Rightarrow>
          (let sections = (if layout = Some ''vertical''
                           then \<lceil>bbox_height (p_parentBbox p) / bbox_height (p_itemBbox p)\<rceil>
                           else \<lceil>bbox_width (p_parentBbox p) / bbox_width (p_itemBbox p)\<rceil>)
           in sections * p_per p))"

definition computeLag :: "direction option \<Rightarrow> int option \<Rightarrow> int" where
  "computeLag dir cnt =
     (let direction = (case dir of None \<Rightarrow> Forward | Some d \<Rightarrow> d);
          count = (case cnt of None \<Rightarrow> 0 | Some c \<Rightarrow> c);
          scalar = \<lceil>real_of_int count / 2\<rceil>
      in if direction = Forward then scalar * (- 1) else scalar + count)"

definition computeIndex :: "int option \<Rightarrow> int option \<Rightarrow> int option" where
  "computeIndex lag index =
     (case lag of
        None \<Rightarrow> None
      | Some l \<Rightarrow> (case index of None \<Rightarrow> None | Some i \<Rightarrow> Some (max 0 (i + l))))"

definition batchSize_of :: "('c, 'd) ctrl \<Rightarrow> int" where
  "batchSize_of st = computeBatchSize min_batch (max_containers st)"

definition resolution_of :: "('c, 'd) ctrl \<Rightarrow> int" where
  "resolution_of st = computeResolution (Some (batchSize_of st))"

definition index_of :: "('c, 'd) ctrl \<Rightarrow> int option" where
  "index_of st =
     computeIndex
       (Some (computeLag (map_option p_direction (pagination st))
                (Some (computeVisibleCount (list_layout st) (pagination st)))))
       (map_option p_index (pagination st))"

subsection \<open>End detection\<close>

text \<open>
  \<open>__resultsCountChanged(newCount, oldCount)\<close>. A comparison with \<open>undefined\<close> is false.
\<close>

definition resultsCountChanged :: "nat \<Rightarrow> nat option \<Rightarrow> ('c, 'd) ctrl \<Rightarrow> ('c, 'd) ctrl" where
  "resultsCountChanged newCount oldCount st =
     (if (case oldCount of None \<Rightarrow> False | Some old \<Rightarrow> newCount < old)
         \<and> map_option p_direction (pagination st) = Some Forward
      then st\<lparr>endDetected := True\<rparr>
      else st\<lparr>endDetected := False\<rparr>)"

text \<open>
  The assignment \<open>this._resultsCount = count\<close>.  \<open>__resultsCountChanged\<close> is declared as the
  observer of the property, and the element base class runs a property observer, with the
  new and the old value, when the assigned value differs from the stored one.
\<close>

definition set_resultsCount :: "nat \<Rightarrow> ('c, 'd) ctrl \<Rightarrow> ('c, 'd) ctrl" where
  "set_resultsCount count st =
     (if resultsCount st = Some count then st
      else resultsCountChanged count (resultsCount st) (st\<lparr>resultsCount := Some count\<rparr>))"

subsection \<open>Garbage collection\<close>

text \<open>
  \<open>__garbageCollect(index, direction, batchSize)\<close>.  The result carries the error when the
  method throws: reading \<open>this._listItems.length\<close> is a \<open>TypeError\<close> while \<open>_listItems\<close> is
  \<open>undefined\<close>.  The conditions are evaluated in the order of the source, which reads the
  length for the reverse direction first and for the forward direction only after
  \<open>start < 0\<close> has failed.
\<close>

definition garbageCollect ::
  "int option \<Rightarrow> direction \<Rightarrow> int \<Rightarrow> ('c, 'd) ctrl \<Rightarrow> js_error option \<times> ('c, 'd) ctrl" where
  "garbageCollect index direction batchSize st =
     (case index of
        None \<Rightarrow> (None, st)
      | Some i \<Rightarrow>
          if pagination st = None \<or> batchSize \<le> min_batch then (None, st)
          else
            (let distance = batchSize * 2;
                 garbageIndex = (if direction = Forward then i - distance else i + distance)
             in case (if direction = Forward then Some garbageIndex
                      else map_option (\<lambda>xs. int (length xs) - garbageIndex) (listItems st)) of
                  None \<Rightarrow> (Some TypeError, st)
                | Some totalGarbage \<Rightarrow>
                    (let count = clamp 0 batchSize totalGarbage;
                         clear = replicate (nat count) None;
                         start = (if direction = Forward then garbageIndex - count else garbageIndex)
                     in if start < 0 then (None, st)
                        else
                          (case listItems st of
                             None \<Rightarrow> (Some TypeError, st)
                           | Some xs \<Rightarrow>
                               if start + count > int (length xs) \<or> count = 0 then (None, st)
                               else (None, st\<lparr>listItems := Some (js_splice xs start count clear)\<rparr>)))))"

subsection \<open>Subscription update\<close>

definition getQueryConstraints ::
  "int \<Rightarrow> 'c list \<Rightarrow> direction \<Rightarrow> 'd option \<Rightarrow> int option \<Rightarrow> 'c list \<Rightarrow> ('c, 'd) constraint list" where
  "getQueryConstraints batchSize constraints direction doc index reverseConstraints =
     (let notAtStart = (case index of None \<Rightarrow> False | Some i \<Rightarrow> 0 < i);
          qConstraints = (if direction = Reverse \<and> notAtStart
                          then map Given reverseConstraints
                          else map Given constraints);
          anchored = (if notAtStart then qConstraints @ [StartAt doc] else qConstraints)
      in anchored @ [Limit batchSize])"

definition unsub :: "('c, 'd) ctrl \<Rightarrow> ('c, 'd) ctrl" where
  "unsub st = st\<lparr>unsubscribe := None\<rparr>"

text \<open>
  \<open>this._listItems?.at(index)?.doc\<close>; \<open>at(undefined)\<close> reads position \<open>0\<close>.
\<close>

definition anchor_doc :: "('c, 'd) ctrl \<Rightarrow> int option \<Rightarrow> 'd option" where
  "anchor_doc st index =
     (case listItems st of
        None \<Rightarrow> None
      | Some xs \<Rightarrow>
          (case js_at xs (case index of None \<Rightarrow> 0 | Some i \<Rightarrow> i) of
             None \<Rightarrow> None
           | Some None \<Rightarrow> None
           | Some (Some e) \<Rightarrow> e_doc e))"

text \<open>
  \<open>__updateItems(visible, constraints, reverseConstraints, ref, batchSize, index)\<close> up to
  the point where the subscription is opened.  The two callbacks handed to \<open>onSnapshot\<close> are
  the functions \<open>callback\<close> and \<open>errorCallback\<close> below; the subscription records the
  \<open>index\<close> and \<open>direction\<close> they close over.  When the garbage collection throws, the
  method stops with the state reached so far.
\<close>

definition updateItems ::
  "bool \<Rightarrow> 'c list \<Rightarrow> 'c list \<Rightarrow> 'r option \<Rightarrow> int \<Rightarrow> int option \<Rightarrow> ('c, 'd) ctrl
     \<Rightarrow> js_error option \<times> ('c, 'd) ctrl" where
  "updateItems visible constraints reverseConstraints ref batchSize index st =
     (let doc = anchor_doc st index
      in if constraints = [] \<or> reverseConstraints = [] \<or> ref = None \<or> batchSize = 0
            \<or> ((case index of None \<Rightarrow> False | Some i \<Rightarrow> 0 < i) \<and> doc = None)
         then (None, st)
         else
           (let st1 = unsub st
            in if \<not> visible then (None, st1)
               else
                 (let st2 = st1\<lparr>busy := True\<rparr>;
                      direction = (case pagination st2 of None \<Rightarrow> Forward | Some p \<Rightarrow> p_direction p)
                  in case garbageCollect index direction batchSize st2 of
                       (Some err, st3) \<Rightarrow> (Some err, st3)
                     | (None, st3) \<Rightarrow>
                         (let qConstraints = getQueryConstraints batchSize constraints direction
                                               doc index reverseConstraints
                          in (None, st3\<lparr>unsubscribe :=
                                Some \<lparr>s_query = qConstraints, s_index = index,
                                      s_direction = Some direction\<rparr>\<rparr>)))))"

subsection \<open>Result and error callbacks\<close>

definition truthy_uid :: "'d entry \<Rightarrow> bool" where
  "truthy_uid obj = (case e_uid obj of None \<Rightarrow> False | Some u \<Rightarrow> u \<noteq> [])"

text \<open>
  The result callback of the subscription opened for \<open>index\<close> and \<open>direction\<close>.
  \<open>Math.max(0, index - lastIndex)\<close> is \<open>NaN\<close> for an undefined \<open>index\<close>, which \<open>splice\<close>
  reads as \<open>0\<close>, as \<open>index || 0\<close> is.
\<close>

definition callback ::
  "int option \<Rightarrow> direction \<Rightarrow> 'd entry list \<Rightarrow> ('c, 'd) ctrl \<Rightarrow> ('c, 'd) ctrl" where
  "callback index direction raw st =
     (if index \<noteq> index_of st then st
      else
        (let validResults = filter truthy_uid raw;
             results = (if direction = Reverse then rev validResults else validResults);
             count = length results;
             st1 = set_resultsCount count st;
             st2 = (case listItems st1 of
                      Some xs \<Rightarrow>
                        (let lastIndex = int count - 1;
                             start = (if direction = Reverse
                                      then (case index of None \<Rightarrow> 0 | Some i \<Rightarrow> max 0 (i - lastIndex))
                                      else (case index of None \<Rightarrow> 0 | Some i \<Rightarrow> i))
                         in st1\<lparr>listItems := Some (this_splice xs start (int count) (map Some results))\<rparr>)
                    | None \<Rightarrow> st1\<lparr>listItems := Some (map Some results)\<rparr>);
             st3 = st2\<lparr>busy := False\<rparr>
         in case paginationWaiting st3 of
              Some waiting \<Rightarrow> st3\<lparr>pagination := Some waiting, paginationWaiting := None\<rparr>
            | None \<Rightarrow> st3))"

definition errorCallback :: "js_error_object \<Rightarrow> ('c, 'd) ctrl \<Rightarrow> ('c, 'd) ctrl" where
  "errorCallback error st =
     (if (case message error of
            None \<Rightarrow> False
          | Some m \<Rightarrow> m \<noteq> [] \<and> includes_str m ''document does not exist'')
      then st
      else st\<lparr>listItems := None, console := console st @ [error]\<rparr>)"

subsection \<open>Pagination requests\<close>

text \<open>
  \<open>__paginationChangedHandler(event)\<close>; \<open>requested\<close> is \<open>event.detail.value\<close>.  Comparisons
  with an undefined \<open>_pagination\<close> are false, \<open>undefined !== 0\<close> is true; a \<open>NaN\<close> remainder
  differs from \<open>0\<close> and is not \<open>>= per\<close>.
\<close>

definition paginationChangedHandler :: "pagination \<Rightarrow> ('c, 'd) ctrl \<Rightarrow> ('c, 'd) ctrl" where
  "paginationChangedHandler requested st =
     (let count = p_count requested;
          direction = p_direction requested;
          index = p_index requested;
          per = p_per requested
      in if endDetected st
            \<and> (case pagination st of None \<Rightarrow> False | Some p \<Rightarrow> p_index p \<le> index)
         then st
         else if direction = Reverse
                 \<and> map_option p_direction (pagination st) = Some Reverse
                 \<and> index = 0
         then st
         else
           (let remainder = js_rem index (resolution_of st);
                pageIsThisSection = (case remainder of None \<Rightarrow> False | Some r \<Rightarrow> per \<le> r)
            in if (case pagination st of
                     None \<Rightarrow> False
                   | Some p \<Rightarrow> p_index p = 0 \<and> count < p_count p)
               then st
               else if map_option p_index (pagination st) \<noteq> Some 0
                       \<and> remainder \<noteq> Some 0
                       \<and> pageIsThisSection
               then st
               else if busy st then st\<lparr>paginationWaiting := Some requested\<rparr>
               else st\<lparr>pagination := Some requested\<rparr>))"

subsection \<open>The earlier revision: \<open>db-list-mixin.js\<close>\<close>

text \<open>
  \<open>_min\<close> is 8 in this revision.  Its methods read \<open>this._max\<close> directly; \<open>mx\<close> below is
  that property, a number once \<open>lite-list\<close> has reported its container count (the pagination
  handler of this revision waits for that report before it stores the first pagination).
\<close>

definition min_batch_v1 :: int where
  "min_batch_v1 = 8"

text \<open>\<open>__computeVisibleCount(pagination)\<close> always divides the heights.\<close>

definition computeVisibleCount_v1 :: "pagination option \<Rightarrow> int" where
  "computeVisibleCount_v1 pg =
     (case pg of
        None \<Rightarrow> 1
      | Some p \<Rightarrow>
          (let visibleRows = \<lceil>bbox_height (p_parentBbox p) / bbox_height (p_itemBbox p)\<rceil>
           in visibleRows * p_per p))"

definition index_of_v1 :: "('c, 'd) ctrl \<Rightarrow> int option" where
  "index_of_v1 st =
     computeIndex
       (Some (computeLag (map_option p_direction (pagination st))
                (Some (computeVisibleCount_v1 (pagination st)))))
       (map_option p_index (pagination st))"

text \<open>
  \<open>__garbageCollect(index, direction)\<close>.  \<open>direction\<close> is \<open>this._pagination?.direction\<close>
  without a default.  There is no guard before the splice, which is the native one.
\<close>

definition garbageCollect_v1 ::
  "int \<Rightarrow> int option \<Rightarrow> direction option \<Rightarrow> ('c, 'd) ctrl \<Rightarrow> js_error option \<times> ('c, 'd) ctrl" where
  "garbageCollect_v1 mx index direction st =
     (case index of
        None \<Rightarrow> (None, st)
      | Some i \<Rightarrow>
          if pagination st = None \<or> mx \<le> min_batch_v1 then (None, st)
          else
            (let garbageIndex = (if direction = Some Forward then i - mx else i + mx)
             in case (if direction = Some Forward then Some garbageIndex
                      else map_option (\<lambda>xs. int (length xs) - garbageIndex) (listItems st)) of
                  None \<Rightarrow> (Some TypeError, st)
                | Some totalGarbage \<Rightarrow>
                    (let count = clamp 0 mx totalGarbage;
                         clear = replicate (nat count) None
                     in case listItems st of
                          None \<Rightarrow> (Some TypeError, st)
                        | Some xs \<Rightarrow>
                            (None, st\<lparr>listItems :=
                                     Some (js_splice xs garbageIndex (int (length clear)) clear)\<rparr>))))"

text \<open>
  \<open>__getQueryConstraints(constraints, index, direction)\<close>, a method in this revision.  It
  destructures \<open>this._listItems.at(index)\<close>, which throws when the array or the entry is
  \<open>undefined\<close>; \<open>None\<close> is that \<open>TypeError\<close>.
\<close>

definition getQueryConstraints_v1 ::
  "int \<Rightarrow> 'c list \<Rightarrow> int option \<Rightarrow> direction option \<Rightarrow> ('c, 'd) ctrl
     \<Rightarrow> ('c, 'd) constraint list option" where
  "getQueryConstraints_v1 mx constraints index direction st =
     (if (case index of None \<Rightarrow> False | Some i \<Rightarrow> 0 < i)
      then (case listItems st of
              None \<Rightarrow> None
            | Some xs \<Rightarrow>
                (case js_at xs (case index of None \<Rightarrow> 0 | Some i \<Rightarrow> i) of
                   None \<Rightarrow> None
                 | Some None \<Rightarrow> None
                 | Some (Some e) \<Rightarrow>
                     Some (map Given constraints
                           @ [if direction = Some Reverse then EndAt (e_doc e) else StartAt (e_doc e)]
                           @ [Limit (max min_batch_v1 mx)])))
      else Some (map Given constraints @ [Limit (max min_batch_v1 mx)]))"

text \<open>
  \<open>__updateItems(visible, constraints, ref, index)\<close>.  The guard reads
  \<open>this._listItems.at(index)\<close> without optional chaining, after \<open>!constraints?.length\<close> and
  \<open>!ref\<close> have failed and \<open>index > 0\<close> has held: on an \<open>undefined\<close> array that read throws.
\<close>

definition updateItems_v1 ::
  "int \<Rightarrow> bool \<Rightarrow> 'c list \<Rightarrow> 'r option \<Rightarrow> int option \<Rightarrow> ('c, 'd) ctrl
     \<Rightarrow> js_error option \<times> ('c, 'd) ctrl" where
  "updateItems_v1 mx visible constraints ref index st =
     (if constraints = [] \<or> ref = None then (None, st)
      else if (case index of None \<Rightarrow> False | Some i \<Rightarrow> 0 < i) \<and> listItems st = None
      then (Some TypeError, st)
      else if (case index of None \<Rightarrow> False | Some i \<Rightarrow> 0 < i)
              \<and> (case listItems st of
                     None \<Rightarrow> False
                   | Some xs \<Rightarrow>
                       (case js_at xs (case index of None \<Rightarrow> 0 | Some i \<Rightarrow> i) of
                          None \<Rightarrow> True
                        | Some None \<Rightarrow> True
                        | Some (Some e) \<Rightarrow> False))
      then (None, st)
      else
        (let st1 = unsub st
         in if \<not> visible then (None, st1)
            else
              (let st2 = st1\<lparr>busy := True\<rparr>;
                   direction = map_option p_direction (pagination st2)
               in case garbageCollect_v1 mx index direction st2 of
                    (Some err, st3) \<Rightarrow> (Some err, st3)
                  | (None, st3) \<Rightarrow>
                      (case getQueryConstraints_v1 mx constraints index direction st3 of
                         None \<Rightarrow> (Some TypeError, st3)
                       | Some qConstraints \<Rightarrow>
                           (None, st3\<lparr>unsubscribe :=
                                    Some \<lparr>s_query = qConstraints, s_index = index,
                                          s_direction = direction\<rparr>\<rparr>)))))"

text \<open>
  The result callback of this revision: the stale check also asks for \<open>_busy\<close>, the batch
  is spliced in the order received, and the start of a reverse splice is not limited to
  \<open>0\<close>.  An undefined \<open>index\<close> makes \<open>start\<close> \<open>undefined\<close> or \<open>NaN\<close>, which \<open>splice\<close> reads as
  \<open>0\<close>.
\<close>

definition callback_v1 ::
  "int option \<Rightarrow> direction option \<Rightarrow> 'd entry list \<Rightarrow> ('c, 'd) ctrl \<Rightarrow> ('c, 'd) ctrl" where
  "callback_v1 index direction results st =
     (if busy st \<and> index \<noteq> index_of_v1 st then st
      else
        (let validResults = filter truthy_uid results;
             st1 = set_resultsCount (length validResults) st;
             st2 = (case listItems st1 of
                      Some xs \<Rightarrow>
                        (let start = (if direction = Some Reverse
                                      then (case index of
                                              None \<Rightarrow> 0
                                            | Some i \<Rightarrow> i - (int (length validResults) - 1))
                                      else (case index of None \<Rightarrow> 0 | Some i \<Rightarrow> i))
                         in st1\<lparr>listItems :=
                                  Some (this_splice xs start (int (length validResults))
                                          (map Some validResults))\<rparr>)
                    | None \<Rightarrow> st1\<lparr>listItems := Some (map Some validResults)\<rparr>);
             st3 = st2\<lparr>busy := False\<rparr>
         in case paginationWaiting st3 of
              Some waiting \<Rightarrow> st3\<lparr>pagination := Some waiting, paginationWaiting := None\<rparr>
            | None \<Rightarrow> st3))"

subsection \<open>What a garbage collection may do to the array\<close>


subsection \<open>A state invariant\<close>

text \<open>While \<open>_endDetected\<close> is set there is a stored pagination.\<close>

definition ended_has_pagination :: "('c, 'd) ctrl \<Rightarrow> bool" where
  "ended_has_pagination st = (endDetected st \<longrightarrow> pagination st \<noteq> None)"

subsection \<open>Example states\<close>

definition item_box :: bbox where
  "item_box = \<lparr>bbox_height = 150, bbox_left = 0, bbox_top = 0, bbox_width = 300\<rparr>"

definition host_box :: bbox where
  "host_box = \<lparr>bbox_height = 600, bbox_left = 0, bbox_top = 0, bbox_width = 300\<rparr>"

definition page :: "direction \<Rightarrow> int \<Rightarrow> pagination" where
  "page d i = \<lparr>p_count = 24, p_direction = d, p_index = i, p_itemBbox = item_box,
               p_parentBbox = host_box, p_per = 1\<rparr>"

definition ctrl0 :: "(unit, nat) ctrl" where
  "ctrl0 = \<lparr>busy = False, endDetected = False, listItems = None,
            list_layout = Some ''vertical'', max_containers = Some 24, pagination = None,
            paginationWaiting = None, resultsCount = None, unsubscribe = None, console = []\<rparr>"

definition loaded_entry :: "nat \<Rightarrow> nat entry" where
  "loaded_entry k = \<lparr>e_uid = Some ''uid'', e_doc = Some k\<rparr>"

definition loaded_items :: "nat \<Rightarrow> nat entry option list" where
  "loaded_items n = map (\<lambda>k. Some (loaded_entry k)) [0..<n]"

text \<open>A controller that has loaded the first \<open>n\<close> records and whose list is at index \<open>i\<close>.\<close>

definition ctrl_loaded :: "nat \<Rightarrow> direction \<Rightarrow> int \<Rightarrow> (unit, nat) ctrl" where
  "ctrl_loaded n d i =
     ctrl0\<lparr>listItems := Some (loaded_items n), pagination := Some (page d i)\<rparr>"

text \<open>A record as delivered by a snapshot, and one that is filtered out as orphaned.\<close>

definition fetched :: "nat \<Rightarrow> nat entry" where
  "fetched k = \<lparr>e_uid = Some ''new'', e_doc = Some k\<rparr>"

definition orphaned :: "nat entry" where
  "orphaned = \<lparr>e_uid = None, e_doc = Some 0\<rparr>"

text \<open>A host that shows one item at a time.\<close>

definition page_small :: "direction \<Rightarrow> int \<Rightarrow> pagination" where
  "page_small d i = \<lparr>p_count = 24, p_direction = d, p_index = i, p_itemBbox = item_box,
                     p_parentBbox = item_box, p_per = 1\<rparr>"

definition ctrl_small :: "nat \<Rightarrow> direction \<Rightarrow> int \<Rightarrow> (unit, nat) ctrl" where
  "ctrl_small n d i =
     ctrl0\<lparr>listItems := Some (loaded_items n), pagination := Some (page_small d i)\<rparr>"

text \<open>
  A controller whose subscription has failed: three records were loaded, the list is at
  index 3, and the error callback has been called with a permission error.
\<close>

definition ctrl_reset :: "(unit, nat) ctrl" where
  "ctrl_reset = errorCallback \<lparr>message = Some ''Missing or insufficient permissions''\<rparr>
                  (ctrl_loaded 3 Forward 3)"

definition ctrl_gap :: "(unit, nat) ctrl" where
  "ctrl_gap = ctrl0\<lparr>listItems := Some [Some (loaded_entry 0), Some (loaded_entry 1), None],
                   pagination := Some (page Forward 3)\<rparr>"

section \<open>Container Pool: \<open>__reposition\<close> of \<open>lite-list\<close>\<close>

text \<open>
  A container element.  \<open>previous\<close> is \<open>target.previous\<close>, the offset cached by \<open>__move\<close>;
  \<open>__move\<close> and \<open>__scrollChanged\<close> always write it together with the \<open>translate\<close>
  transform of the element, so it is also the offset at which the element is drawn
  (\<open>None\<close>: never moved, drawn without a transform).  \<open>natural\<close> is the coordinate, on the
  side named by \<open>_side\<close>, of the bounding rectangle the element has without a transform at
  the current scroll position.
\<close>

record container =
  previous :: "real option"
  natural :: real

text \<open>\<open>target.previous || 0\<close>.\<close>

definition previous_or_0 :: "container \<Rightarrow> real" where
  "previous_or_0 c = (case previous c of None \<Rightarrow> 0 | Some p \<Rightarrow> p)"


text \<open>\<open>__move(container, position)\<close>.\<close>

definition move :: "container \<Rightarrow> real \<Rightarrow> container" where
  "move c position = c\<lparr>previous := Some position\<rparr>"



text \<open>
  The properties of the element that \<open>__reposition\<close> reads.  Pixel quantities are real
  numbers.  \<open>l_margin\<close> is the number returned by \<open>__getMarginNum()\<close>.  \<open>l_sorted\<close> is
  \<open>this._sorted\<close>, the value the computed property had when it was last computed
  (\<open>None\<close>: \<open>undefined\<close>): its entries keep the rectangles measured then, while
  \<open>target.previous\<close> is read from the container as it is now.
\<close>

record list_state =
  l_infinite :: bool
  l_containerIndex :: "int option"
  l_virtualIndex :: int
  l_containersPer :: int
  l_containerCount :: int
  l_sampleSize :: real
  l_hostSize :: real
  l_scroll :: real
  l_maxSize :: "real option"
  l_direction :: direction
  l_position :: "string option"
  l_margin :: real
  l_containers :: "container list"
  l_sorted :: "(real \<times> nat) list option"


subsection \<open>\<open>lite-list.js\<close>\<close>

definition reposition_entry_v1 :: "list_state \<Rightarrow> real \<Rightarrow> real \<Rightarrow> container \<Rightarrow> container" where
  "reposition_entry_v1 st position side target =
     (let previous = previous_or_0 target;
          travel = position - previous;
          placement = side + travel + l_scroll st
      in if \<not> l_infinite st \<and> (case l_maxSize st of None \<Rightarrow> False | Some m \<Rightarrow> m \<le> placement)
         then target
         else move target position)"


subsection \<open>The later revision\<close>









subsection \<open>Example pools\<close>




section \<open>Properties of the Data Window\<close>

lemma js_slice_nat:
  "js_slice xs (int s) (Some (int e)) = take (e - s) (drop s xs)"
  by (auto simp: js_slice_def js_index_def Let_def min_def)

lemma js_slice_from:
  "js_slice xs (int s) None = drop s xs"
  by (auto simp: js_slice_def js_index_def Let_def min_def)

lemma js_slice_head: "0 \<le> d \<Longrightarrow> js_slice xs 0 (Some d) = take (nat d) xs"
  by (simp add: js_slice_def js_index_def Let_def min_def)

text \<open>
  C1 (amended).  For an items array \<open>xs\<close> of length \<open>L\<close>, a container count \<open>P\<close> and a
  start index \<open>s \<le> L\<close>: when not infinite, \<open>__computeData\<close> returns
  \<open>items.slice(s, s + P)\<close>, which has exactly \<open>P\<close> items when \<open>s + P \<le> L\<close>; when infinite
  and \<open>s + P > L\<close> it returns the tail slice \<open>items.slice(s)\<close> followed by the head slice
  \<open>items.slice(0, s + P - L)\<close>.  The head slice is cut at the end of the array, so the
  total length is \<open>min P (2 * L - s)\<close>: exactly \<open>P\<close> when \<open>s + P \<le> 2 * L\<close>, which holds
  whenever \<open>P \<le> L\<close>.
\<close>

theorem computeData_window:
  "s \<le> length xs \<Longrightarrow>
     computeData False (Some xs) (int P) (Some (int s))
       = Some (js_slice xs (int s) (Some (int s + int P)))
   \<and> js_slice xs (int s) (Some (int s + int P)) = take P (drop s xs)
   \<and> (s + P \<le> length xs \<longrightarrow> length (js_slice xs (int s) (Some (int s + int P))) = P)
   \<and> (length xs < s + P \<longrightarrow>
        computeData True (Some xs) (int P) (Some (int s))
          = Some (js_slice xs (int s) None @ js_slice xs 0 (Some (int s + int P - int (length xs))))
        \<and> js_slice xs (int s) None = drop s xs
        \<and> js_slice xs 0 (Some (int s + int P - int (length xs))) = take (s + P - length xs) xs
        \<and> length (js_slice xs (int s) None @ js_slice xs 0 (Some (int s + int P - int (length xs))))
            = min P (2 * length xs - s)
        \<and> (s + P \<le> 2 * length xs \<longrightarrow>
             length (js_slice xs (int s) None @ js_slice xs 0 (Some (int s + int P - int (length xs)))) = P))"
proof -
  assume s: "s \<le> length xs"
  have e: "int s + int P = int (s + P)" by simp
  have a: "js_slice xs (int s) (Some (int s + int P)) = take P (drop s xs)"
    unfolding e js_slice_nat by simp
  have b: "computeData False (Some xs) (int P) (Some (int s))
             = Some (js_slice xs (int s) (Some (int s + int P)))"
    by (simp add: computeData_def)
  have a': "s + P \<le> length xs \<longrightarrow> length (js_slice xs (int s) (Some (int s + int P))) = P"
    unfolding a by simp
  have t: "js_slice xs (int s) None = drop s xs" by (rule js_slice_from)
  have h: "js_slice xs 0 (Some (int s + int P - int (length xs))) = take (s + P - length xs) xs"
    if l: "length xs < s + P"
  proof -
    have "nat (int s + int P - int (length xs)) = s + P - length xs" by linarith
    moreover have "0 \<le> int s + int P - int (length xs)" using l by linarith
    ultimately show ?thesis using js_slice_head by metis
  qed
  have c: "computeData True (Some xs) (int P) (Some (int s))
             = Some (js_slice xs (int s) None @ js_slice xs 0 (Some (int s + int P - int (length xs))))"
    if "length xs < s + P"
    using that by (simp add: computeData_def Let_def)
  have l1: "length (js_slice xs (int s) None @ js_slice xs 0 (Some (int s + int P - int (length xs))))
              = min P (2 * length xs - s)"
    if "length xs < s + P"
    using s that unfolding t by (simp only: h length_append length_drop length_take)
  have l2: "length (js_slice xs (int s) None @ js_slice xs 0 (Some (int s + int P - int (length xs)))) = P"
    if "length xs < s + P" "s + P \<le> 2 * length xs"
    using l1 that by linarith
  show ?thesis using a b a' t h c l1 l2 by blast
qed

text \<open>
  The scenario of the specification (100 items, 6 containers, start 6) and a wrapped window
  (5 items, 3 containers, start 4).
\<close>

theorem computeData_window_witness:
  "computeData False (Some [0..<100]) 6 (Some 6) = Some [6, 7, 8, 9, 10, 11]
   \<and> computeData True (Some [0..<5]) 3 (Some 4) = Some [4, 0, 1]"
proof -
  have w1: "(6::nat) \<le> length [0..<100]" by simp
  have w2: "(4::nat) \<le> length [0..<5]" by simp
  have u5: "[0..<5] = [0, 1, 2, 3, 4::nat]" by (simp add: upt_rec)
  have d6: "take 6 (drop 6 [0..<100]) = [6, 7, 8, 9, 10, 11::nat]"
    by (simp add: drop_upt take_upt upt_rec)
  from computeData_window [OF w1, of 6] have "computeData False (Some [0..<100]) 6 (Some 6)
      = Some (take 6 (drop 6 [0..<100]))" by simp
  moreover from computeData_window [OF w2, of 3] have "computeData True (Some [0..<5]) 3 (Some 4)
      = Some (drop 4 [0..<5] @ take 2 [0..<5])" by simp
  ultimately show ?thesis by (simp add: d6 u5)
qed

text \<open>
  C1 as stated promises a wrapped window of exactly \<open>P\<close> items for every \<open>P\<close>.  With two
  items and five containers the window has four.
\<close>

theorem computeData_length_counterexample:
  "computeData True (Some [10, 20 :: nat]) 5 (Some 0) = Some [10, 20, 10, 20]
   \<and> length [10, 20, 10, 20 :: nat] \<noteq> 5"
  by (simp add: computeData_def js_slice_def js_index_def)


section \<open>Properties of the Virtual Index Calculator\<close>

lemma computeVirtualIndex_recycled_eq:
  "computeVirtualIndex_recycled layout sampleBbox scroll = computeVirtualIndex layout sampleBbox 1 scroll"
  by (simp add: computeVirtualIndex_recycled_def computeVirtualIndex_def Let_def
      split: option.splits)

lemma computeVirtualIndex_guard:
  "falsy_string layout \<or> sampleBbox = None \<or> scroll = None
     \<or> (\<exists>b. sampleBbox = Some b \<and> (bbox_height b = 0 \<or> bbox_width b = 0))
   \<Longrightarrow> computeVirtualIndex layout sampleBbox per scroll = 0"
  by (auto simp: computeVirtualIndex_def split: option.splits)

lemma computeVirtualIndex_measured:
  "\<not> falsy_string layout \<Longrightarrow> 0 < bbox_height b \<Longrightarrow> 0 < bbox_width b \<Longrightarrow>
   computeVirtualIndex layout (Some b) per (Some sc)
     = \<lfloor>\<bar>sc - itemStart layout b\<bar> / itemSize layout b\<rfloor> * per"
  by (simp add: computeVirtualIndex_def itemStart_def itemSize_def Let_def abs_divide)

lemma computeVirtualIndex_mono:
  assumes "0 \<le> per" "itemStart layout b \<le> s1" "s1 \<le> s2"
  shows "computeVirtualIndex layout (Some b) per (Some s1)
           \<le> computeVirtualIndex layout (Some b) per (Some s2)"
proof -
  let ?st = "itemStart layout b" and ?sz = "itemSize layout b"
  have "\<bar>(s1 - ?st) / ?sz\<bar> \<le> \<bar>(s2 - ?st) / ?sz\<bar>"
    using assms by (simp add: abs_divide divide_right_mono)
  then have "\<lfloor>\<bar>(s1 - ?st) / ?sz\<bar>\<rfloor> \<le> \<lfloor>\<bar>(s2 - ?st) / ?sz\<bar>\<rfloor>" by (rule floor_mono)
  then have "\<lfloor>\<bar>(s1 - ?st) / ?sz\<bar>\<rfloor> * per \<le> \<lfloor>\<bar>(s2 - ?st) / ?sz\<bar>\<rfloor> * per"
    using assms(1) by (rule mult_right_mono)
  then show ?thesis
    by (simp add: computeVirtualIndex_def itemStart_def itemSize_def Let_def)
qed

text \<open>
  C2.  The Virtual Index Calculator returns \<open>0\<close> when the layout, the sample geometry or the
  scroll offset is missing, or when the sample box has a zero height or width (a box that
  has not been measured yet, which includes an item size of \<open>0\<close>).  For a measured box,
  with positive height and width, it returns
  \<open>floor(|scrollOffset - itemStart| / itemSize) * itemsPerLine\<close>.  The later revision with
  the \<open>!per\<close> guard returns the same number, and \<open>recycled-list\<close>, which has one item per
  line, returns the formula with \<open>itemsPerLine = 1\<close>.  The calculator is a function of its
  four arguments alone.
\<close>

theorem computeVirtualIndex_formula:
  "(falsy_string layout \<or> sampleBbox = None \<or> scroll = None
      \<or> (\<exists>b. sampleBbox = Some b \<and> (itemSize layout b = 0 \<or> bbox_height b = 0 \<or> bbox_width b = 0))
    \<longrightarrow> computeVirtualIndex layout sampleBbox per scroll = 0
        \<and> computeVirtualIndex_guarded layout sampleBbox per scroll = 0
        \<and> computeVirtualIndex_recycled layout sampleBbox scroll = 0)
   \<and> (\<not> falsy_string layout \<and> 0 < bbox_height b \<and> 0 < bbox_width b
    \<longrightarrow> computeVirtualIndex layout (Some b) per (Some sc)
          = \<lfloor>\<bar>sc - itemStart layout b\<bar> / itemSize layout b\<rfloor> * per
        \<and> computeVirtualIndex_guarded layout (Some b) per (Some sc)
          = \<lfloor>\<bar>sc - itemStart layout b\<bar> / itemSize layout b\<rfloor> * per
        \<and> computeVirtualIndex_recycled layout (Some b) (Some sc)
          = \<lfloor>\<bar>sc - itemStart layout b\<bar> / itemSize layout b\<rfloor> * 1)"
proof (intro conjI impI)
  assume g: "falsy_string layout \<or> sampleBbox = None \<or> scroll = None
      \<or> (\<exists>b. sampleBbox = Some b \<and> (itemSize layout b = 0 \<or> bbox_height b = 0 \<or> bbox_width b = 0))"
  then have g': "falsy_string layout \<or> sampleBbox = None \<or> scroll = None
     \<or> (\<exists>b. sampleBbox = Some b \<and> (bbox_height b = 0 \<or> bbox_width b = 0))"
    by (auto simp: itemSize_def split: if_splits)
  show z: "computeVirtualIndex layout sampleBbox per scroll = 0"
    using g' by (rule computeVirtualIndex_guard)
  show "computeVirtualIndex_guarded layout sampleBbox per scroll = 0"
    using z by (simp add: computeVirtualIndex_guarded_def)
  show "computeVirtualIndex_recycled layout sampleBbox scroll = 0"
    unfolding computeVirtualIndex_recycled_eq using g' by (rule computeVirtualIndex_guard)
next
  assume m: "\<not> falsy_string layout \<and> 0 < bbox_height b \<and> 0 < bbox_width b"
  show f: "computeVirtualIndex layout (Some b) per (Some sc)
          = \<lfloor>\<bar>sc - itemStart layout b\<bar> / itemSize layout b\<rfloor> * per"
    using m by (simp add: computeVirtualIndex_measured)
  show "computeVirtualIndex_guarded layout (Some b) per (Some sc)
          = \<lfloor>\<bar>sc - itemStart layout b\<bar> / itemSize layout b\<rfloor> * per"
    using f by (simp add: computeVirtualIndex_guarded_def)
  show "computeVirtualIndex_recycled layout (Some b) (Some sc)
          = \<lfloor>\<bar>sc - itemStart layout b\<bar> / itemSize layout b\<rfloor> * 1"
    unfolding computeVirtualIndex_recycled_eq using m by (simp add: computeVirtualIndex_measured)
qed

text \<open>
  The scenario of the specification: item size 150, one item per line, scroll offset 900
  give virtual index 6; without a sample box the index is 0.
\<close>

theorem computeVirtualIndex_formula_witness:
  "computeVirtualIndex (Some ''vertical'')
     (Some \<lparr>bbox_height = 150, bbox_left = 0, bbox_top = 0, bbox_width = 300\<rparr>) 1 (Some 900) = 6
   \<and> computeVirtualIndex (Some ''vertical'') None 1 (Some 900) = 0"
  using computeVirtualIndex_formula [where layout = "Some ''vertical''"
      and b = "\<lparr>bbox_height = 150, bbox_left = 0, bbox_top = 0, bbox_width = 300\<rparr>"
      and per = 1 and sc = 900 and sampleBbox = None and scroll = "Some 900"]
  by (simp add: falsy_string_def itemStart_def itemSize_def)

text \<open>
  C6 (amended).  For a fixed sample box and a non-negative items-per-line count, the
  virtual index is monotonically non-decreasing in the scroll offset over the offsets at or
  beyond the leading edge of the sample item: \<open>itemStart \<le> s1 \<le> s2\<close> gives
  \<open>virtualIndex(s1) \<le> virtualIndex(s2)\<close>, in every revision of the calculator.
\<close>

theorem computeVirtualIndex_monotone:
  "0 \<le> per \<Longrightarrow> itemStart layout b \<le> s1 \<Longrightarrow> s1 \<le> s2 \<Longrightarrow>
     computeVirtualIndex layout (Some b) per (Some s1)
       \<le> computeVirtualIndex layout (Some b) per (Some s2)
   \<and> computeVirtualIndex_guarded layout (Some b) per (Some s1)
       \<le> computeVirtualIndex_guarded layout (Some b) per (Some s2)
   \<and> computeVirtualIndex_recycled layout (Some b) (Some s1)
       \<le> computeVirtualIndex_recycled layout (Some b) (Some s2)"
proof -
  assume a: "0 \<le> per" "itemStart layout b \<le> s1" "s1 \<le> s2"
  have one: "(0::int) \<le> 1" by simp
  show ?thesis
    unfolding computeVirtualIndex_recycled_eq computeVirtualIndex_guarded_def
    using computeVirtualIndex_mono [OF a] computeVirtualIndex_mono [OF one a(2,3)]
    by simp
qed

theorem computeVirtualIndex_monotone_witness:
  "computeVirtualIndex (Some ''vertical'')
     (Some \<lparr>bbox_height = 150, bbox_left = 0, bbox_top = 0, bbox_width = 300\<rparr>) 1 (Some 450)
   \<le> computeVirtualIndex (Some ''vertical'')
     (Some \<lparr>bbox_height = 150, bbox_left = 0, bbox_top = 0, bbox_width = 300\<rparr>) 1 (Some 900)
   \<and> computeVirtualIndex (Some ''vertical'')
     (Some \<lparr>bbox_height = 150, bbox_left = 0, bbox_top = 0, bbox_width = 300\<rparr>) 1 (Some 450) = 3"
  using computeVirtualIndex_monotone [where per = 1 and layout = "Some ''vertical''"
      and b = "\<lparr>bbox_height = 150, bbox_left = 0, bbox_top = 0, bbox_width = 300\<rparr>"
      and ?s1.0 = 450 and ?s2.0 = 900]
  by (simp add: itemStart_def computeVirtualIndex_def falsy_string_def)

text \<open>
  C6 as stated ranges over all scroll offsets.  The calculator takes the absolute value of
  the distance to the leading edge, so below that edge the index falls while the offset
  grows: with the sample item 300 px down the page and 150 px high, offset 0 gives index 2
  and offset 300 gives index 0.
\<close>

theorem computeVirtualIndex_monotone_counterexample:
  "(0::real) \<le> 300
   \<and> \<not> computeVirtualIndex (Some ''vertical'')
        (Some \<lparr>bbox_height = 150, bbox_left = 0, bbox_top = 300, bbox_width = 300\<rparr>) 1 (Some 0)
      \<le> computeVirtualIndex (Some ''vertical'')
        (Some \<lparr>bbox_height = 150, bbox_left = 0, bbox_top = 300, bbox_width = 300\<rparr>) 1 (Some 300)"
  by (simp add: computeVirtualIndex_def falsy_string_def)

section \<open>Properties of the controller\<close>

subsection \<open>Array lemmas\<close>

lemma js_splice_take_drop:
  assumes "0 \<le> start" "0 \<le> count"
  shows "js_splice xs start count elems
           = take (nat start) xs @ elems @ drop (nat start + nat count) xs"
proof (cases "start \<le> int (length xs)")
  case True
  then have k: "js_index (length xs) start = nat start"
    using assms by (simp add: js_index_def min_def)
  let ?d = "nat (min (max count 0) (int (length xs) - int (nat start)))"
  have "drop (nat start + ?d) xs = drop (nat start + nat count) xs"
  proof (cases "count \<le> int (length xs) - start")
    case True
    then have "?d = nat count" using assms by simp
    then show ?thesis by simp
  next
    case False
    then have "?d = length xs - nat start" using assms by (simp add: min_def)
    then show ?thesis using assms False by simp
  qed
  then show ?thesis unfolding js_splice_def Let_def k by simp
next
  case False
  then have k: "js_index (length xs) start = length xs"
    using assms by (simp add: js_index_def min_def)
  have d: "nat (min (max count 0) (int (length xs) - int (length xs))) = 0"
    using assms by simp
  have t: "take (nat start) xs = xs" using False by simp
  have dr: "drop (nat start + nat count) xs = []" using False by simp
  show ?thesis unfolding js_splice_def Let_def k d t dr by simp
qed


lemma length_loaded_items: "length (loaded_items n) = n"
  by (simp add: loaded_items_def)

lemma take_loaded_items: "n \<le> m \<Longrightarrow> take n (loaded_items m) = loaded_items n"
  by (simp add: loaded_items_def take_map)

lemma nth_loaded_items: "j < n \<Longrightarrow> loaded_items n ! j = Some (loaded_entry j)"
  by (simp add: loaded_items_def)

lemma index_of_reverse_example: "index_of (ctrl_loaded n Reverse 4) = Some 10"
  by (simp add: index_of_def ctrl_loaded_def ctrl0_def page_def computeIndex_def
      computeLag_def computeVisibleCount_def item_box_def host_box_def)

subsection \<open>End detection\<close>

text \<open>
  C3 (amended).  \<open>endDetected\<close> becomes true only when a result count arrives while the
  pagination direction is forward and the count is strictly smaller than the count of the
  previous fetch.  When the arriving count differs from the previous fetch's count,
  \<open>endDetected\<close> is true afterwards exactly if the direction is forward and the count is
  smaller than that previous count, and is cleared otherwise.  When the arriving count
  equals the previous fetch's count, \<open>endDetected\<close> and the rest of the controller stay as
  they were.  The count compared with is that of the previous fetch of either direction,
  not that of the previous forward fetch.
\<close>

theorem endDetected_toggle:
  "(\<not> endDetected st \<and> endDetected (set_resultsCount n st)
     \<longrightarrow> map_option p_direction (pagination st) = Some Forward
         \<and> (case resultsCount st of None \<Rightarrow> False | Some m \<Rightarrow> n < m))
   \<and> (resultsCount st \<noteq> Some n
     \<longrightarrow> endDetected (set_resultsCount n st)
           = (map_option p_direction (pagination st) = Some Forward
              \<and> (case resultsCount st of None \<Rightarrow> False | Some m \<Rightarrow> n < m)))
   \<and> (resultsCount st = Some n \<longrightarrow> set_resultsCount n st = st)"
  by (auto simp: set_resultsCount_def resultsCountChanged_def split: option.splits)

text \<open>
  The scenario of the specification: forward fetches that return 20 and then 12 records
  set \<open>endDetected\<close>; the first of them leaves it cleared.  A further fetch that returns 12
  again, in reverse direction, leaves it set.
\<close>

theorem endDetected_toggle_witness:
  "endDetected (set_resultsCount 12
      (set_resultsCount 20 (ctrl0\<lparr>pagination := Some (page Forward 0)\<rparr>)))
   \<and> \<not> endDetected (set_resultsCount 20 (ctrl0\<lparr>pagination := Some (page Forward 0)\<rparr>))
   \<and> endDetected (set_resultsCount 12
        ((set_resultsCount 12
            (set_resultsCount 20 (ctrl0\<lparr>pagination := Some (page Forward 0)\<rparr>)))
           \<lparr>pagination := Some (page Reverse 0)\<rparr>))"
proof -
  let ?s0 = "ctrl0\<lparr>pagination := Some (page Forward 0)\<rparr>"
  let ?s1 = "set_resultsCount 20 ?s0"
  let ?s2 = "set_resultsCount 12 ?s1"
  let ?s3 = "?s2\<lparr>pagination := Some (page Reverse 0)\<rparr>"
  have r0: "resultsCount ?s0 = None" by (simp add: ctrl0_def)
  have r1: "resultsCount ?s1 = Some 20"
    by (simp add: set_resultsCount_def resultsCountChanged_def ctrl0_def)
  have r3: "resultsCount ?s3 = Some 12"
    by (simp add: set_resultsCount_def resultsCountChanged_def ctrl0_def)
  have d: "map_option p_direction (pagination ?s1) = Some Forward"
    by (simp add: set_resultsCount_def resultsCountChanged_def ctrl0_def page_def)
  have a: "\<not> endDetected ?s1"
    using endDetected_toggle [of ?s0 20] r0 by simp
  have b: "endDetected ?s2"
    using endDetected_toggle [of ?s1 12] r1 d by simp
  have "set_resultsCount 12 ?s3 = ?s3"
    using endDetected_toggle [of ?s3 12] r3 by blast
  then have c: "endDetected (set_resultsCount 12 ?s3)" using b by simp
  show ?thesis using a b c by blast
qed

text \<open>
  C3 as stated has \<open>endDetected\<close> cleared by every forward fetch whose count is not smaller
  than the count of the previous forward fetch.  A forward fetch of 12 records, a reverse
  fetch of 20 and a forward fetch of 15: the last count is not smaller than 12, the count of
  the previous forward fetch, and \<open>endDetected\<close> is set, because 15 is smaller than 20.
\<close>

theorem endDetected_previous_forward_counterexample:
  "endDetected
     (set_resultsCount 15
        ((set_resultsCount 20
            ((set_resultsCount 12 (ctrl0\<lparr>pagination := Some (page Forward 0)\<rparr>))
               \<lparr>pagination := Some (page Reverse 0)\<rparr>))
           \<lparr>pagination := Some (page Forward 0)\<rparr>))
   \<and> \<not> (15::nat) < 12"
  by (simp add: set_resultsCount_def resultsCountChanged_def ctrl0_def page_def)

subsection \<open>Suppression of pagination requests\<close>

text \<open>
  \<open>_endDetected\<close> is only set while a pagination is stored, and a stored pagination is
  only ever replaced by another one, so every method preserves the invariant.
\<close>

lemma ended_has_pagination_init: "ended_has_pagination ctrl0"
  by (simp add: ended_has_pagination_def ctrl0_def)

lemma ended_has_pagination_set_resultsCount:
  "ended_has_pagination st \<Longrightarrow> ended_has_pagination (set_resultsCount n st)"
  by (auto simp: ended_has_pagination_def set_resultsCount_def resultsCountChanged_def)

lemma ended_has_pagination_callback:
  assumes "ended_has_pagination st"
  shows "ended_has_pagination (callback index direction raw st)"
  using ended_has_pagination_set_resultsCount [OF assms, of "length (filter truthy_uid raw)"] assms
  by (auto simp: ended_has_pagination_def callback_def Let_def split: option.splits)

lemma ended_has_pagination_errorCallback:
  "ended_has_pagination st \<Longrightarrow> ended_has_pagination (errorCallback error st)"
  by (auto simp: ended_has_pagination_def errorCallback_def)

lemma ended_has_pagination_handler:
  "ended_has_pagination st \<Longrightarrow> ended_has_pagination (paginationChangedHandler requested st)"
  by (auto simp: ended_has_pagination_def paginationChangedHandler_def Let_def)

lemma ended_has_pagination_garbageCollect:
  "ended_has_pagination st \<Longrightarrow> ended_has_pagination (snd (garbageCollect index direction b st))"
  by (auto simp: ended_has_pagination_def garbageCollect_def Let_def
      split: option.splits if_splits)

lemma ended_has_pagination_updateItems:
  assumes "ended_has_pagination st"
  shows "ended_has_pagination
           (snd (updateItems visible constraints reverseConstraints ref b index st))"
proof -
  let ?st2 = "(unsub st)\<lparr>busy := True\<rparr>"
  let ?dir = "case pagination ?st2 of None \<Rightarrow> Forward | Some p \<Rightarrow> p_direction p"
  let ?g = "garbageCollect index ?dir b ?st2"
  have i1: "ended_has_pagination (unsub st)"
    using assms by (simp add: ended_has_pagination_def unsub_def)
  have i2: "ended_has_pagination ?st2"
    using assms by (simp add: ended_has_pagination_def unsub_def)
  have i3: "ended_has_pagination (snd ?g)"
    using i2 by (rule ended_has_pagination_garbageCollect)
  then have i4: "ended_has_pagination ((snd ?g)\<lparr>unsubscribe := u\<rparr>)" for u
    by (simp add: ended_has_pagination_def)
  obtain e st3 where g: "?g = (e, st3)" by (cases ?g) auto
  show ?thesis
    using assms i1 i3 i4 g
    by (cases e) (auto simp: updateItems_def Let_def)
qed

text \<open>
  C7.  While \<open>endDetected\<close> is set, a pagination request whose index is at or beyond the
  index of the stored pagination is suppressed: the handler returns the controller
  unchanged.  Neither \<open>_pagination\<close> nor \<open>_paginationWaiting\<close> is written, so \<open>_index\<close>
  keeps its value, the subscription observer is not triggered, and the live subscription
  stays as it was.
\<close>

theorem paginationChangedHandler_suppressed:
  "endDetected st \<Longrightarrow> pagination st = Some cur \<Longrightarrow> p_index cur \<le> p_index requested
   \<Longrightarrow> paginationChangedHandler requested st = st
       \<and> index_of (paginationChangedHandler requested st) = index_of st
       \<and> unsubscribe (paginationChangedHandler requested st) = unsubscribe st"
  by (simp add: paginationChangedHandler_def)

text \<open>
  A request for index 48 at stored index 36 is dropped while \<open>endDetected\<close> is set; without
  the flag the same request is stored.
\<close>

theorem paginationChangedHandler_suppressed_witness:
  "paginationChangedHandler (page Forward 48)
      (ctrl0\<lparr>endDetected := True, pagination := Some (page Forward 36)\<rparr>)
     = ctrl0\<lparr>endDetected := True, pagination := Some (page Forward 36)\<rparr>
   \<and> paginationChangedHandler (page Forward 48) (ctrl0\<lparr>pagination := Some (page Forward 36)\<rparr>)
     = ctrl0\<lparr>pagination := Some (page Forward 48)\<rparr>"
proof -
  have e: "endDetected (ctrl0\<lparr>endDetected := True, pagination := Some (page Forward 36)\<rparr>)"
    by simp
  have p: "pagination (ctrl0\<lparr>endDetected := True, pagination := Some (page Forward 36)\<rparr>)
             = Some (page Forward 36)"
    by simp
  have i: "p_index (page Forward 36) \<le> p_index (page Forward 48)"
    by (simp add: page_def)
  have "paginationChangedHandler (page Forward 48) (ctrl0\<lparr>pagination := Some (page Forward 36)\<rparr>)
     = ctrl0\<lparr>pagination := Some (page Forward 48)\<rparr>"
    by (simp add: paginationChangedHandler_def page_def ctrl0_def resolution_of_def
        batchSize_of_def computeBatchSize_def computeResolution_def min_batch_def js_rem_def)
  then show ?thesis
    using paginationChangedHandler_suppressed [OF e p i] by simp
qed

subsection \<open>Fetch errors\<close>

lemma includes_str_nonempty: "includes_str m (c # cs) \<Longrightarrow> m \<noteq> []"
  by (cases m) auto

text \<open>
  C9.  An error whose message contains \<open>document does not exist\<close> leaves the controller,
  and with it the backing array, unchanged.  Any other error resets the backing array to
  \<open>undefined\<close> and is passed to \<open>console.error\<close>; nothing else changes, so the subscription
  and the pagination stay as they were and no fetch is started again.
\<close>

theorem errorCallback_cases:
  "((\<exists>m. message error = Some m \<and> includes_str m ''document does not exist'')
      \<longrightarrow> errorCallback error st = st)
   \<and> (\<not> (\<exists>m. message error = Some m \<and> includes_str m ''document does not exist'')
      \<longrightarrow> errorCallback error st = st\<lparr>listItems := None, console := console st @ [error]\<rparr>
          \<and> unsubscribe (errorCallback error st) = unsubscribe st
          \<and> pagination (errorCallback error st) = pagination st
          \<and> index_of (errorCallback error st) = index_of st)"
  by (auto simp: errorCallback_def index_of_def dest: includes_str_nonempty split: option.splits)

theorem errorCallback_cases_witness:
  "errorCallback \<lparr>message = Some ''The document does not exist.''\<rparr> (ctrl_loaded 3 Forward 0)
     = ctrl_loaded 3 Forward 0
   \<and> errorCallback \<lparr>message = Some ''permission denied''\<rparr> (ctrl_loaded 3 Forward 0)
     = (ctrl_loaded 3 Forward 0)
         \<lparr>listItems := None, console := [\<lparr>message = Some ''permission denied''\<rparr>]\<rparr>"
  using errorCallback_cases [of "\<lparr>message = Some ''The document does not exist.''\<rparr>"
      "ctrl_loaded 3 Forward 0"]
    errorCallback_cases [of "\<lparr>message = Some ''permission denied''\<rparr>" "ctrl_loaded 3 Forward 0"]
  by (simp add: ctrl_loaded_def ctrl0_def)

subsection \<open>Garbage collection\<close>





text \<open>
  The restriction to an anchor inside the array is needed: the step of \<open>db-list-mixin.js\<close>
  has no bounds check of its own and relies on the guard of the update, which lets an
  anchor index \<open>i > 0\<close> through only when the array has an entry at \<open>i\<close>.  Called for
  anchor 100 on an array of 60 records, it appends 24 \<open>undefined\<close> entries.
\<close>

lemma garbageCollect_v1_beyond_example:
  "garbageCollect_v1 24 (Some 100) (Some Forward) (ctrl_loaded 60 Forward 102)
     = (None, (ctrl_loaded 60 Forward 102)
                \<lparr>listItems := Some (loaded_items 60 @ replicate 24 None)\<rparr>)"
  by (simp add: garbageCollect_v1_def ctrl_loaded_def ctrl0_def clamp_def min_batch_v1_def
      js_splice_def js_index_def length_loaded_items)




subsection \<open>Splicing a batch into the backing array\<close>

lemma listItems_set_resultsCount: "listItems (set_resultsCount n st) = listItems st"
  by (simp add: set_resultsCount_def resultsCountChanged_def)

lemma this_splice_nonneg:
  "0 \<le> start \<Longrightarrow> this_splice xs start deleteCount elems = js_splice xs start deleteCount elems"
  by (simp add: this_splice_def)

lemma callback_listItems:
  assumes "index_of st = Some i" "listItems st = Some xs"
  shows "listItems (callback (Some i) direction raw st)
     = Some (this_splice xs
               (if direction = Reverse
                then max 0 (i - (int (length (filter truthy_uid raw)) - 1)) else i)
               (int (length (filter truthy_uid raw)))
               (map Some (if direction = Reverse then rev (filter truthy_uid raw)
                          else filter truthy_uid raw)))"
  using assms
  by (simp add: callback_def Let_def listItems_set_resultsCount split: option.splits)

lemma callback_v1_listItems:
  assumes "index_of_v1 st = Some i" "listItems st = Some xs"
  shows "listItems (callback_v1 (Some i) direction raw st)
     = Some (this_splice xs
               (if direction = Some Reverse
                then i - (int (length (filter truthy_uid raw)) - 1) else i)
               (int (length (filter truthy_uid raw)))
               (map Some (filter truthy_uid raw)))"
  using assms
  by (simp add: callback_v1_def Let_def listItems_set_resultsCount split: option.splits)

lemma index_of_v1_reverse_example: "index_of_v1 (ctrl_loaded n Reverse 4) = Some 10"
  by (simp add: index_of_v1_def ctrl_loaded_def ctrl0_def page_def computeIndex_def
      computeLag_def computeVisibleCount_v1_def item_box_def host_box_def)

lemma ceiling_half: "\<lceil>(1::real) / 2\<rceil> = 1"
  by (rule ceiling_unique) simp_all

lemma index_of_small_example: "index_of (ctrl_small n Reverse 0) = Some 2"
  by (simp add: index_of_def ctrl_small_def ctrl0_def page_small_def computeIndex_def
      computeLag_def computeVisibleCount_def item_box_def ceiling_half)

lemma index_of_v1_small_example: "index_of_v1 (ctrl_small n Reverse 0) = Some 2"
  by (simp add: index_of_v1_def ctrl_small_def ctrl0_def page_small_def computeIndex_def
      computeLag_def computeVisibleCount_v1_def item_box_def ceiling_half)

text \<open>
  C5 (amended).  Let \<open>i\<close> be an anchor index within the backing array \<open>xs\<close>, and let \<open>valid\<close>
  be the \<open>count\<close> records of a result batch that have a \<open>uid\<close>; put
  \<open>start = max(0, i - (count - 1))\<close>.

  In the revision with \<open>reverseConstraints\<close>, when the batch arrives for the current anchor
  index: a reverse batch is reversed and replaces the \<open>count\<close> entries from \<open>start\<close> on; a
  forward batch, in the order received, replaces the \<open>count\<close> entries from \<open>i\<close> on.

  In \<open>db-list-mixin.js\<close>, when the batch arrives for the current anchor index: a reverse
  batch with \<open>count - 1 \<le> i\<close> replaces, in the order received, the \<open>count\<close> entries from
  \<open>i - (count - 1)\<close> on; a batch of any other direction replaces, in the order received, the
  \<open>count\<close> entries from \<open>i\<close> on.

  When \<open>count - 1 \<le> i\<close> and the batch is not empty, the last position replaced from
  \<open>start\<close> on is the anchor; when \<open>i < count - 1\<close>, \<open>start\<close> is \<open>0\<close>.
\<close>

theorem callback_splice:
  assumes i0: "0 \<le> i" and l: "listItems st = Some xs" and n: "nat i \<le> length xs"
    and v: "valid = filter truthy_uid raw" and c: "count = length valid"
    and s: "start = nat (max 0 (i - (int count - 1)))"
  shows "(index_of st = Some i \<longrightarrow>
            listItems (callback (Some i) Reverse raw st)
              = Some (take start xs @ map Some (rev valid) @ drop (start + count) xs)
          \<and> listItems (callback (Some i) Forward raw st)
              = Some (take (nat i) xs @ map Some valid @ drop (nat i + count) xs))
       \<and> (index_of_v1 st = Some i \<longrightarrow>
            (int count - 1 \<le> i \<longrightarrow>
               listItems (callback_v1 (Some i) (Some Reverse) raw st)
                 = Some (take start xs @ map Some valid @ drop (start + count) xs))
          \<and> (direction \<noteq> Some Reverse \<longrightarrow>
               listItems (callback_v1 (Some i) direction raw st)
                 = Some (take (nat i) xs @ map Some valid @ drop (nat i + count) xs)))
       \<and> (\<forall>k<count. (take start xs @ map Some (rev valid) @ drop (start + count) xs) ! (start + k)
                      = Some (rev valid ! k))
       \<and> (\<forall>k<count. (take start xs @ map Some valid @ drop (start + count) xs) ! (start + k)
                      = Some (valid ! k))
       \<and> (\<forall>k<count. (take (nat i) xs @ map Some valid @ drop (nat i + count) xs) ! (nat i + k)
                      = Some (valid ! k))
       \<and> (0 < count \<and> int count - 1 \<le> i \<longrightarrow> start + count - 1 = nat i)
       \<and> (i < int count - 1 \<longrightarrow> start = 0)"
proof (intro conjI impI allI)
  have r1: "0 \<le> max 0 (i - (int count - 1))" by simp
  have r3: "0 \<le> int count" by simp
  show "listItems (callback (Some i) Reverse raw st)
           = Some (take start xs @ map Some (rev valid) @ drop (start + count) xs)"
    if "index_of st = Some i"
    using callback_listItems [OF that l, of Reverse raw] js_splice_take_drop [OF r1 r3]
    by (simp add: v c s this_splice_nonneg)
  show "listItems (callback (Some i) Forward raw st)
           = Some (take (nat i) xs @ map Some valid @ drop (nat i + count) xs)"
    if "index_of st = Some i"
    using callback_listItems [OF that l, of Forward raw] js_splice_take_drop [OF i0 r3] i0
    by (simp add: v c this_splice_nonneg)
  show "listItems (callback_v1 (Some i) (Some Reverse) raw st)
           = Some (take start xs @ map Some valid @ drop (start + count) xs)"
    if "index_of_v1 st = Some i" and b: "int count - 1 \<le> i"
  proof -
    have e: "max 0 (i - (int count - 1)) = i - (int count - 1)" using b by simp
    have r0: "0 \<le> i - (int count - 1)" using b by simp
    show ?thesis
      using callback_v1_listItems [OF that(1) l, of "Some Reverse" raw]
        js_splice_take_drop [OF r0 r3] r0
      by (simp add: v c s e this_splice_nonneg)
  qed
  show "listItems (callback_v1 (Some i) direction raw st)
           = Some (take (nat i) xs @ map Some valid @ drop (nat i + count) xs)"
    if "index_of_v1 st = Some i" and "direction \<noteq> Some Reverse"
    using callback_v1_listItems [OF that(1) l, of direction raw] js_splice_take_drop [OF i0 r3]
      i0 that(2)
    by (simp add: v c this_splice_nonneg)
  show "start + count - 1 = nat i" if "0 < count \<and> int count - 1 \<le> i"
    using that s by linarith
  show "start = 0" if "i < int count - 1"
    using that s by linarith
  have st: "length (take start xs) = start" if k: "k < count" for k
  proof -
    have "start \<le> nat i" using k s i0 by linarith
    then show ?thesis using n by simp
  qed
  show "(take start xs @ map Some (rev valid) @ drop (start + count) xs) ! (start + k)
          = Some (rev valid ! k)" if k: "k < count" for k
    using st [OF k] k c by (simp add: nth_append)
  show "(take start xs @ map Some valid @ drop (start + count) xs) ! (start + k)
          = Some (valid ! k)" if k: "k < count" for k
    using st [OF k] k c by (simp add: nth_append)
  show "(take (nat i) xs @ map Some valid @ drop (nat i + count) xs) ! (nat i + k)
          = Some (valid ! k)" if k: "k < count" for k
  proof -
    have "length (take (nat i) xs) = nat i" using n by simp
    then show ?thesis using k c by (simp add: nth_append)
  qed
qed

text \<open>
  Twelve loaded records, anchor 10.  In the later revision a reverse batch arrives as
  records 10, 9, 8 with an orphaned record among them: the three valid records land,
  reversed, at positions 8 to 10, and the neighbours at 7 and 11 stay.  A forward batch of
  three lands at 10 to 12 and the array grows to 13 entries.  In \<open>db-list-mixin.js\<close> a
  reverse batch that arrives as records 8, 9, 10 lands at positions 8 to 10 as received.
\<close>

theorem callback_splice_witness:
  "the (listItems (callback (Some 10) Reverse [fetched 10, orphaned, fetched 9, fetched 8]
          (ctrl_loaded 12 Reverse 4))) ! 8 = Some (fetched 8)
   \<and> the (listItems (callback (Some 10) Reverse [fetched 10, orphaned, fetched 9, fetched 8]
          (ctrl_loaded 12 Reverse 4))) ! 10 = Some (fetched 10)
   \<and> the (listItems (callback (Some 10) Reverse [fetched 10, orphaned, fetched 9, fetched 8]
          (ctrl_loaded 12 Reverse 4))) ! 7 = Some (loaded_entry 7)
   \<and> the (listItems (callback (Some 10) Reverse [fetched 10, orphaned, fetched 9, fetched 8]
          (ctrl_loaded 12 Reverse 4))) ! 11 = Some (loaded_entry 11)
   \<and> the (listItems (callback (Some 10) Forward [fetched 10, orphaned, fetched 11, fetched 12]
          (ctrl_loaded 12 Reverse 4))) ! 10 = Some (fetched 10)
   \<and> length (the (listItems (callback (Some 10) Forward
          [fetched 10, orphaned, fetched 11, fetched 12] (ctrl_loaded 12 Reverse 4)))) = 13
   \<and> the (listItems (callback_v1 (Some 10) (Some Reverse)
          [fetched 8, orphaned, fetched 9, fetched 10] (ctrl_loaded 12 Reverse 4))) ! 8
       = Some (fetched 8)
   \<and> the (listItems (callback_v1 (Some 10) (Some Reverse)
          [fetched 8, orphaned, fetched 9, fetched 10] (ctrl_loaded 12 Reverse 4))) ! 10
       = Some (fetched 10)
   \<and> length (the (listItems (callback_v1 (Some 10) (Some Forward)
          [fetched 10, orphaned, fetched 11, fetched 12] (ctrl_loaded 12 Reverse 4)))) = 13"
proof -
  have i: "index_of (ctrl_loaded 12 Reverse 4) = Some 10"
    by (rule index_of_reverse_example)
  have i1: "index_of_v1 (ctrl_loaded 12 Reverse 4) = Some 10"
    by (rule index_of_v1_reverse_example)
  have l: "listItems (ctrl_loaded 12 Reverse 4) = Some (loaded_items 12)"
    by (simp add: ctrl_loaded_def)
  have n: "nat 10 \<le> length (loaded_items 12)" by (simp add: length_loaded_items)
  have v: "filter truthy_uid [fetched 10, orphaned, fetched 9, fetched 8]
             = [fetched 10, fetched 9, fetched 8]"
    by (simp add: truthy_uid_def fetched_def orphaned_def)
  have v2: "filter truthy_uid [fetched 10, orphaned, fetched 11, fetched 12]
              = [fetched 10, fetched 11, fetched 12]"
    by (simp add: truthy_uid_def fetched_def orphaned_def)
  have v3: "filter truthy_uid [fetched 8, orphaned, fetched 9, fetched 10]
              = [fetched 8, fetched 9, fetched 10]"
    by (simp add: truthy_uid_def fetched_def orphaned_def)
  have z: "(0::int) \<le> 10" by simp
  have c3: "(3::nat) = length [fetched 10, fetched 9, fetched 8]" by simp
  have c3': "(3::nat) = length [fetched 10, fetched 11, fetched 12]" by simp
  have c3'': "(3::nat) = length [fetched 8, fetched 9, fetched 10]" by simp
  have s8: "(8::nat) = nat (max 0 (10 - (int 3 - 1)))" by simp
  have b: "int 3 - 1 \<le> (10::int)" by simp
  have d: "Some Forward \<noteq> Some Reverse" by simp
  note A = callback_splice [OF z l n v [symmetric] c3 s8]
  note B = callback_splice [OF z l n v2 [symmetric] c3' s8, of "Some Forward"]
  note C = callback_splice [OF z l n v3 [symmetric] c3'' s8]
  have r: "listItems (callback (Some 10) Reverse [fetched 10, orphaned, fetched 9, fetched 8]
              (ctrl_loaded 12 Reverse 4))
     = Some (take 8 (loaded_items 12) @ map Some (rev [fetched 10, fetched 9, fetched 8])
             @ drop (8 + 3) (loaded_items 12))"
    using A i by blast
  have f: "listItems (callback (Some 10) Forward [fetched 10, orphaned, fetched 11, fetched 12]
              (ctrl_loaded 12 Reverse 4))
     = Some (take (nat 10) (loaded_items 12) @ map Some [fetched 10, fetched 11, fetched 12]
             @ drop (nat 10 + 3) (loaded_items 12))"
    using B i by blast
  have r1: "listItems (callback_v1 (Some 10) (Some Reverse)
              [fetched 8, orphaned, fetched 9, fetched 10] (ctrl_loaded 12 Reverse 4))
     = Some (take 8 (loaded_items 12) @ map Some [fetched 8, fetched 9, fetched 10]
             @ drop (8 + 3) (loaded_items 12))"
    using C i1 b by blast
  have f1: "listItems (callback_v1 (Some 10) (Some Forward)
              [fetched 10, orphaned, fetched 11, fetched 12] (ctrl_loaded 12 Reverse 4))
     = Some (take (nat 10) (loaded_items 12) @ map Some [fetched 10, fetched 11, fetched 12]
             @ drop (nat 10 + 3) (loaded_items 12))"
    using B i1 d by blast
  show ?thesis unfolding r f r1 f1
    by (simp add: nth_append length_loaded_items nth_loaded_items)
qed

text \<open>
  C5 as stated has every reverse batch reversed and spliced from \<open>max(0, i - (count - 1))\<close>
  on, ending at the anchor.  In the later revision, with six loaded records and the anchor
  at 2, a reverse batch of five records is spliced from 0 on and ends at position 4, two
  past the anchor.  In \<open>db-list-mixin.js\<close>, with twelve loaded records and the anchor at
  10, the reverse batch 8, 9, 10 is spliced as received, not reversed; and with six loaded
  records and the anchor at 2, a reverse batch of five records has \<open>start = -2\<close>, which
  \<open>this.splice\<close> counts from the end of the array: the batch lands at positions 4 to 8, not
  from \<open>max(0, -2) = 0\<close> on, and the array grows to nine entries.
\<close>

theorem callback_splice_counterexample:
  "index_of (ctrl_small 6 Reverse 0) = Some 2
   \<and> listItems (callback (Some 2) Reverse
        [fetched 2, fetched 1, fetched 0, fetched 101, fetched 102] (ctrl_small 6 Reverse 0))
       = Some [Some (fetched 102), Some (fetched 101), Some (fetched 0), Some (fetched 1),
               Some (fetched 2), Some (loaded_entry 5)]
   \<and> index_of_v1 (ctrl_loaded 12 Reverse 4) = Some 10
   \<and> listItems (callback_v1 (Some 10) (Some Reverse) [fetched 8, fetched 9, fetched 10]
        (ctrl_loaded 12 Reverse 4))
       = Some (loaded_items 8 @ [Some (fetched 8), Some (fetched 9), Some (fetched 10),
                                 Some (loaded_entry 11)])
   \<and> index_of_v1 (ctrl_small 6 Reverse 0) = Some 2
   \<and> listItems (callback_v1 (Some 2) (Some Reverse)
        [fetched 100, fetched 101, fetched 0, fetched 1, fetched 2] (ctrl_small 6 Reverse 0))
       = Some (loaded_items 4 @ [Some (fetched 100), Some (fetched 101), Some (fetched 0),
                                 Some (fetched 1), Some (fetched 2)])"
proof -
  have t: "truthy_uid (fetched k)" for k by (simp add: truthy_uid_def fetched_def)
  have l6: "listItems (ctrl_small 6 Reverse 0) = Some (loaded_items 6)"
    by (simp add: ctrl_small_def)
  have l12: "listItems (ctrl_loaded 12 Reverse 4) = Some (loaded_items 12)"
    by (simp add: ctrl_loaded_def)
  have d5: "drop 5 (loaded_items 6) = [Some (loaded_entry 5)]"
    by (simp add: loaded_items_def drop_map)
  have d11: "drop 11 (loaded_items 12) = [Some (loaded_entry 11)]"
    by (simp add: loaded_items_def drop_map)
  have a: "listItems (callback (Some 2) Reverse
        [fetched 2, fetched 1, fetched 0, fetched 101, fetched 102] (ctrl_small 6 Reverse 0))
       = Some [Some (fetched 102), Some (fetched 101), Some (fetched 0), Some (fetched 1),
               Some (fetched 2), Some (loaded_entry 5)]"
    unfolding callback_listItems [OF index_of_small_example l6]
    by (simp add: t this_splice_def js_splice_def js_index_def length_loaded_items d5)
  have b: "listItems (callback_v1 (Some 10) (Some Reverse) [fetched 8, fetched 9, fetched 10]
        (ctrl_loaded 12 Reverse 4))
       = Some (loaded_items 8 @ [Some (fetched 8), Some (fetched 9), Some (fetched 10),
                                 Some (loaded_entry 11)])"
    unfolding callback_v1_listItems [OF index_of_v1_reverse_example l12]
    by (simp add: t this_splice_def js_splice_def js_index_def length_loaded_items d11
        take_loaded_items)
  have c: "listItems (callback_v1 (Some 2) (Some Reverse)
        [fetched 100, fetched 101, fetched 0, fetched 1, fetched 2] (ctrl_small 6 Reverse 0))
       = Some (loaded_items 4 @ [Some (fetched 100), Some (fetched 101), Some (fetched 0),
                                 Some (fetched 1), Some (fetched 2)])"
    unfolding callback_v1_listItems [OF index_of_v1_small_example l6]
    by (simp add: t this_splice_def js_splice_def js_index_def length_loaded_items
        take_loaded_items)
  show ?thesis
    using a b c index_of_small_example [of 6] index_of_v1_reverse_example [of 12]
      index_of_v1_small_example [of 6]
    by simp
qed

subsection \<open>Subscription update at a missing anchor\<close>

lemma anchor_doc_absent:
  "0 < i \<Longrightarrow>
   listItems st = None
     \<or> (\<exists>xs. listItems st = Some xs \<and> (int (length xs) \<le> i \<or> xs ! nat i = None))
   \<Longrightarrow> anchor_doc st (Some i) = None"
  by (auto simp: anchor_doc_def js_at_def split: option.splits)

lemma anchor_doc_in_range:
  "anchor_doc st (Some i) = Some d \<Longrightarrow> 0 \<le> i \<Longrightarrow>
   \<exists>xs. listItems st = Some xs \<and> nat i < length xs"
  by (auto simp: anchor_doc_def js_at_def split: option.splits if_splits)

lemma startAt_query:
  "0 < i \<Longrightarrow> StartAt None \<notin> set (getQueryConstraints b cs dir (Some d) (Some i) rcs)
     \<and> StartAt (Some d) \<in> set (getQueryConstraints b cs dir (Some d) (Some i) rcs)"
  by (auto simp: getQueryConstraints_def Let_def)

lemma updateItems_opened:
  assumes "0 < i"
    and r: "updateItems visible constraints reverseConstraints ref batchSize (Some i) st = (None, st')"
    and s: "unsubscribe st' = Some sub" and n: "unsubscribe st \<noteq> Some sub"
  shows "\<exists>d dir. anchor_doc st (Some i) = Some d
          \<and> s_query sub = getQueryConstraints batchSize constraints dir
                             (Some d) (Some i) reverseConstraints"
proof (cases "anchor_doc st (Some i)")
  case None
  with assms(1) r have "st' = st" by (simp add: updateItems_def)
  with s n show ?thesis by simp
next
  case (Some d)
  let ?dir = "case pagination st of None \<Rightarrow> Forward | Some p \<Rightarrow> p_direction p"
  let ?st2 = "(unsub st)\<lparr>busy := True\<rparr>"
  obtain e st3 where g: "garbageCollect (Some i) ?dir batchSize ?st2 = (e, st3)"
    by (cases "garbageCollect (Some i) ?dir batchSize ?st2") auto
  have p2: "pagination ?st2 = pagination st" by (simp add: unsub_def)
  show ?thesis
  proof (cases "constraints = [] \<or> reverseConstraints = [] \<or> ref = None \<or> batchSize = 0")
    case True
    with r have "st' = st" by (auto simp: updateItems_def Let_def)
    with s n show ?thesis by simp
  next
    case False
    show ?thesis
    proof (cases visible)
      case False
      with \<open>\<not> (constraints = [] \<or> reverseConstraints = [] \<or> ref = None \<or> batchSize = 0)\<close> Some r
      have "st' = unsub st" by (auto simp: updateItems_def Let_def)
      with s show ?thesis by (simp add: unsub_def)
    next
      case True
      with False Some r g p2 have "e = None \<and> st' = st3\<lparr>unsubscribe :=
            Some \<lparr>s_query = getQueryConstraints batchSize constraints ?dir (Some d) (Some i)
                              reverseConstraints,
                  s_index = Some i, s_direction = Some ?dir\<rparr>\<rparr>"
        by (auto simp: updateItems_def Let_def split: option.splits)
      with s Some show ?thesis by auto
    qed
  qed
qed

text \<open>
  The later revision reads the anchor through optional chaining.  For a target anchor index
  \<open>i > 0\<close> whose backing-array entry is absent (the array is \<open>undefined\<close>, or too short, or
  the entry has been cleared), its subscription update returns without an error and with
  the controller unchanged: no subscription is cancelled or opened.  Whenever it does open
  a subscription for an index \<open>i > 0\<close>, the anchor \<open>doc\<close> exists and the query is anchored
  with \<open>startAt\<close> of that document, never of \<open>undefined\<close>.
\<close>

lemma updateItems_absent_anchor:
  "0 < i \<Longrightarrow>
     ((listItems st = None
        \<or> (\<exists>xs. listItems st = Some xs \<and> (int (length xs) \<le> i \<or> xs ! nat i = None)))
      \<longrightarrow> updateItems visible constraints reverseConstraints ref batchSize (Some i) st = (None, st))
   \<and> (updateItems visible constraints reverseConstraints ref batchSize (Some i) st = (None, st')
        \<and> unsubscribe st' = Some sub \<and> unsubscribe st \<noteq> Some sub
      \<longrightarrow> (\<exists>d. anchor_doc st (Some i) = Some d \<and> StartAt (Some d) \<in> set (s_query sub))
          \<and> StartAt None \<notin> set (s_query sub))"
proof (intro conjI impI)
  assume i: "0 < i"
  { assume "listItems st = None
        \<or> (\<exists>xs. listItems st = Some xs \<and> (int (length xs) \<le> i \<or> xs ! nat i = None))"
    with i have "anchor_doc st (Some i) = None" by (rule anchor_doc_absent)
    with i show "updateItems visible constraints reverseConstraints ref batchSize (Some i) st = (None, st)"
      by (simp add: updateItems_def) }
  { assume a: "updateItems visible constraints reverseConstraints ref batchSize (Some i) st = (None, st')
        \<and> unsubscribe st' = Some sub \<and> unsubscribe st \<noteq> Some sub"
    then obtain d dir where d: "anchor_doc st (Some i) = Some d"
      and q: "s_query sub = getQueryConstraints batchSize constraints dir
                             (Some d) (Some i) reverseConstraints"
      using updateItems_opened [OF i, of visible constraints reverseConstraints ref batchSize st st' sub]
      by blast
    show "\<exists>d. anchor_doc st (Some i) = Some d \<and> StartAt (Some d) \<in> set (s_query sub)"
      using d q startAt_query [OF i] by metis
    show "StartAt None \<notin> set (s_query sub)"
      using q startAt_query [OF i] by metis }
qed

text \<open>
  A backing array of three entries whose last entry has been cleared.  An update for index
  2 does nothing; an update for index 1, whose record is present, opens a subscription
  anchored at that record's document.
\<close>

lemma updateItems_gap_example:
  "updateItems True [()] [()] (Some ()) 24 (Some 2) ctrl_gap = (None, ctrl_gap)
   \<and> updateItems True [()] [()] (Some ()) 24 (Some 1) ctrl_gap
       = (None, ctrl_gap\<lparr>busy := True,
                  unsubscribe := Some \<lparr>s_query = [Given (), StartAt (Some 1), Limit 24],
                                       s_index = Some 1, s_direction = Some Forward\<rparr>\<rparr>)"
  by (simp add: updateItems_def anchor_doc_def js_at_def ctrl_gap_def ctrl0_def unsub_def
      page_def garbageCollect_def clamp_def min_batch_def getQueryConstraints_def
      loaded_entry_def Let_def)

text \<open>
  \<open>db-list-mixin.js\<close> returns in the same way while the array exists: an entry that is out
  of range or has been cleared ends the update before anything is changed.  On an
  \<open>undefined\<close> array its guard throws.
\<close>

lemma updateItems_v1_absent_entry:
  "0 < i \<Longrightarrow> listItems st = Some xs \<Longrightarrow> int (length xs) \<le> i \<or> xs ! nat i = None \<Longrightarrow>
   updateItems_v1 mx visible constraints ref (Some i) st = (None, st)"
  by (auto simp: updateItems_v1_def js_at_def split: option.splits)

lemma updateItems_v1_undefined_array:
  "0 < i \<Longrightarrow> constraints \<noteq> [] \<Longrightarrow> ref \<noteq> None \<Longrightarrow> listItems st = None \<Longrightarrow>
   updateItems_v1 mx visible constraints ref (Some i) st = (Some TypeError, st)"
  by (simp add: updateItems_v1_def)

lemma ctrl_reset_eq:
  "ctrl_reset = (ctrl_loaded 3 Forward 3)
      \<lparr>listItems := None,
        console := [\<lparr>message = Some ''Missing or insufficient permissions''\<rparr>]\<rparr>"
  by (simp add: ctrl_reset_def errorCallback_def ctrl_loaded_def ctrl0_def)

text \<open>
  C10.  In \<open>db-list-mixin.js\<close> the guard meant to validate the anchor index reads
  \<open>this._listItems.at(index)\<close> on the array itself.  After a subscription error has reset
  the array to \<open>undefined\<close> while the list stands at index 3, the anchor index is 1 and no
  entry is loaded at it; the subscription update for that index does not return silently
  but throws a \<open>TypeError\<close> from the guard, dereferencing the missing array.  The later
  revision, which reads \<open>this._listItems?.at(index)?.doc\<close>, returns at the same input with
  the controller unchanged, as the claim says.
\<close>

theorem updateItems_v1_missing_array:
  "listItems ctrl_reset = None
   \<and> index_of_v1 ctrl_reset = Some 1
   \<and> updateItems_v1 24 True [()] (Some ()) (Some 1) ctrl_reset = (Some TypeError, ctrl_reset)
   \<and> index_of ctrl_reset = Some 1
   \<and> updateItems True [()] [()] (Some ()) 24 (Some 1) ctrl_reset = (None, ctrl_reset)"
proof -
  have l: "listItems ctrl_reset = None" by (simp add: ctrl_reset_eq)
  have p: "pagination ctrl_reset = Some (page Forward 3)"
    by (simp add: ctrl_reset_eq ctrl_loaded_def)
  have i1: "index_of_v1 ctrl_reset = Some 1"
    by (simp add: index_of_v1_def p page_def computeIndex_def computeLag_def
        computeVisibleCount_v1_def item_box_def host_box_def)
  have i2: "index_of ctrl_reset = Some 1"
    by (simp add: index_of_def p page_def computeIndex_def computeLag_def
        computeVisibleCount_def item_box_def host_box_def ctrl_reset_eq ctrl_loaded_def
        ctrl0_def)
  have a: "updateItems_v1 24 True [()] (Some ()) (Some 1) ctrl_reset = (Some TypeError, ctrl_reset)"
    using l by (simp add: updateItems_v1_def)
  have b: "updateItems True [()] [()] (Some ()) 24 (Some 1) ctrl_reset = (None, ctrl_reset)"
    using l by (simp add: updateItems_def anchor_doc_def)
  show ?thesis using l i1 i2 a b by simp
qed

section \<open>Properties of the Container Pool\<close>














lemma reposition_entry_v1_frame [simp]:
  "reposition_entry_v1 (st\<lparr>l_containers := cs\<rparr>) = reposition_entry_v1 st"
  "reposition_entry_v1 (st\<lparr>l_sorted := es\<rparr>) = reposition_entry_v1 st"
  by (intro ext, simp add: reposition_entry_v1_def Let_def)+














end
